theory Spec2Isabelle
  imports Main "HOL-Library.Monad_Syntax"
begin

section \<open>The row buffer of \<^verbatim>\<open>src/buffer/out/Row.cpp\<close>\<close>

text \<open>
  A \<^verbatim>\<open>ROW\<close> owns a growable buffer of UTF-16 code units (\<^verbatim>\<open>_chars\<close>, allocated size
  \<^verbatim>\<open>_charsCapacity\<close>), an array of \<^verbatim>\<open>_indicesCount + 1\<close> offsets of type \<^verbatim>\<open>uint16_t\<close>
  (\<^verbatim>\<open>_indices\<close>), the attribute runs (\<^verbatim>\<open>_attr\<close>) and three line properties.

  Conventions of the embedding.
  \<^item> A code unit (\<^verbatim>\<open>wchar_t\<close>) and an offset (\<^verbatim>\<open>uint16_t\<close>) are natural numbers; a
    \<^verbatim>\<open>size_t\<close> is a natural number below \<open>2 ^ 64\<close>. Where the source relies on
    wrap-around (the subtraction \<^verbatim>\<open>newRhs - ch1\<close>, the sum \<^verbatim>\<open>new0 + width\<close> of a
    caller-supplied width, the narrowing \<^verbatim>\<open>*it += diff\<close> into \<^verbatim>\<open>uint16_t\<close>, the counter
    \<^verbatim>\<open>++colorUses\<close>) the reduction is written out with \<open>sz\<close> and \<open>u16\<close>.
    Sums of buffer sizes (\<^verbatim>\<open>chars.size() + leadingSpaces + trailingSpaces\<close>,
    \<^verbatim>\<open>_charsCapacity + (_charsCapacity >> 1)\<close>) are bounded by the address space and are
    left unreduced. A column number is at most \<^verbatim>\<open>_indicesCount\<close>, which the only
    constructor takes from an \<^verbatim>\<open>unsigned short\<close>, so \<^verbatim>\<open>gsl::narrow_cast<uint16_t>\<close>
    of a column is the identity.
  \<^item> A raw array is a list whose length is the allocated size. An access outside of it
    is undefined behaviour in the source; the embedding returns \<open>None\<close> there.
  \<^item> \<^verbatim>\<open>std::copy_n\<close> on \<^verbatim>\<open>wchar_t\<close> pointers is a block move: the source range is read
    before the destination is written (the library copies trivially copyable elements
    with \<^verbatim>\<open>memmove\<close>). A count that is not positive copies nothing.
  \<^item> Memory returned by \<^verbatim>\<open>operator new[]\<close> is uninitialised; the embedding fills it
    with \<open>0\<close>. Releasing the old buffer has no counterpart.
\<close>

type_synonym wchar = nat
type_synonym TextAttribute = nat

datatype LineRendition = SingleWidth | DoubleWidth | DoubleHeightTop | DoubleHeightBottom

record ROW =
  chars :: "wchar list"
  charsCapacity :: nat
  indices :: "nat list"
  indicesCount :: nat
  attr :: "TextAttribute list"
  lineRendition :: LineRendition
  wrapForced :: bool
  doubleBytePadded :: bool

definition UNICODE_SPACE :: wchar where
  "UNICODE_SPACE = 32"

definition sz :: "int \<Rightarrow> nat" where
  "sz i = nat (i mod 2 ^ 64)"

definition u16 :: "nat \<Rightarrow> nat" where
  "u16 n = n mod 65536"

subsection \<open>Raw memory\<close>

definition index_at :: "nat list \<Rightarrow> nat \<Rightarrow> nat option" where
  "index_at idx i = (if i < length idx then Some (idx ! i) else None)"

definition copy_n :: "'a list \<Rightarrow> nat \<Rightarrow> int \<Rightarrow> 'a list \<Rightarrow> nat \<Rightarrow> 'a list option" where
  "copy_n src first n dst result =
     (if n \<le> 0 then Some dst
      else if first + nat n \<le> length src \<and> result + nat n \<le> length dst
      then Some (take result dst @ take (nat n) (drop first src) @ drop (result + nat n) dst)
      else None)"

definition fill_n :: "'a list \<Rightarrow> nat \<Rightarrow> nat \<Rightarrow> 'a \<Rightarrow> 'a list option" where
  "fill_n dst first n v =
     (if n = 0 then Some dst
      else if first + n \<le> length dst
      then Some (take first dst @ replicate n v @ drop (first + n) dst)
      else None)"

text \<open>\<^verbatim>\<open>for (; col < bound; ++col) *it++ = f(col)\<close> with \<^verbatim>\<open>it == _indices + col\<close>.\<close>

definition store_cols :: "nat list \<Rightarrow> nat \<Rightarrow> nat \<Rightarrow> (nat \<Rightarrow> nat) \<Rightarrow> nat list option" where
  "store_cols idx col bound f =
     (if bound \<le> col then Some idx
      else if bound \<le> length idx
      then Some (take col idx @ map f [col..<bound] @ drop bound idx)
      else None)"

text \<open>\<^verbatim>\<open>for (it = &_indices[new1]; it != &_indices[_indicesCount + 1]; ++it) *it += diff\<close>\<close>

definition add_diff :: "nat list \<Rightarrow> nat \<Rightarrow> nat \<Rightarrow> nat \<Rightarrow> nat list option" where
  "add_diff idx new1 stop diff =
     (if stop \<le> length idx \<and> new1 \<le> stop
      then Some (take new1 idx @ map (\<lambda>v. u16 (v + diff)) (take (stop - new1) (drop new1 idx))
                 @ drop stop idx)
      else None)"

subsection \<open>Construction and \<^verbatim>\<open>Reset\<close>\<close>

text \<open>The constructor, for a non-null \<^verbatim>\<open>buffer\<close> of \<^verbatim>\<open>rowWidth\<close> code units.\<close>

definition ROW_new :: "nat \<Rightarrow> TextAttribute \<Rightarrow> ROW" where
  "ROW_new rowWidth fillAttribute =
     \<lparr> chars = replicate rowWidth UNICODE_SPACE,
       charsCapacity = rowWidth,
       indices = [0..<rowWidth + 1],
       indicesCount = rowWidth,
       attr = replicate (max 1 rowWidth) fillAttribute,
       lineRendition = SingleWidth,
       wrapForced = False,
       doubleBytePadded = False \<rparr>"

definition Reset :: "TextAttribute \<Rightarrow> ROW \<Rightarrow> ROW option" where
  "Reset Attr r = do {
     cs \<leftarrow> fill_n (chars r) 0 (indicesCount r) UNICODE_SPACE;
     Some (r\<lparr> chars := cs,
              indices := [0..<indicesCount r + 1],
              attr := replicate (indicesCount r) Attr,
              lineRendition := SingleWidth,
              wrapForced := False,
              doubleBytePadded := False \<rparr>)
   }"

subsection \<open>\<^verbatim>\<open>ROW::Replace(size_t x, size_t width, const std::wstring_view& chars)\<close>\<close>

text \<open>\<^verbatim>\<open>for (; old0 != 0 && _indices[old0 - 1] == ch0; --old0)\<close>\<close>

function scan_left :: "nat list \<Rightarrow> nat \<Rightarrow> nat \<Rightarrow> nat" where
  "scan_left idx ch0 old0 =
     (if old0 \<noteq> 0 \<and> idx ! (old0 - 1) = ch0 then scan_left idx ch0 (old0 - 1) else old0)"
  by pat_completeness auto
termination
  by (relation "measure (\<lambda>(idx, ch0, old0). old0)") auto

text \<open>
  \<^verbatim>\<open>for (; (ch1 = _indices[old1]) == ch0; ++old1)\<close>: the loop has no bound of its own
  and runs off the array when no entry from \<open>old1\<close> on differs from \<open>ch0\<close>.
\<close>

function scan_right :: "nat list \<Rightarrow> nat \<Rightarrow> nat \<Rightarrow> (nat \<times> nat) option" where
  "scan_right idx ch0 old1 =
     (if length idx \<le> old1 then None
      else if idx ! old1 = ch0 then scan_right idx ch0 (Suc old1)
      else Some (old1, idx ! old1))"
  by pat_completeness auto
termination
  by (relation "measure (\<lambda>(idx, ch0, old1). length idx - old1)") auto

declare scan_left.simps [simp del] scan_right.simps [simp del]

text \<open>The body of \<^verbatim>\<open>if (diff != 0)\<close>, lines 197 to 224.\<close>

definition Replace_resize :: "nat \<Rightarrow> nat \<Rightarrow> nat \<Rightarrow> nat \<Rightarrow> nat \<Rightarrow> ROW \<Rightarrow> ROW option" where
  "Replace_resize new1 ch0 ch1 newRhs diff r = do {
     currentLength \<leftarrow> index_at (indices r) (indicesCount r);
     let newLength = sz (int currentLength + int diff);
     r1 \<leftarrow> (if newLength \<le> charsCapacity r
            then do {
              cs \<leftarrow> copy_n (chars r) ch1 (int currentLength - int ch1) (chars r) newRhs;
              Some (r\<lparr> chars := cs \<rparr>)
            }
            else do {
              let newCapacity = max newLength (charsCapacity r + charsCapacity r div 2);
              let fresh = replicate newCapacity 0;
              c1 \<leftarrow> copy_n (chars r) 0 (int ch0) fresh 0;
              c2 \<leftarrow> copy_n (chars r) ch1 (int currentLength - int ch1) c1 newRhs;
              Some (r\<lparr> chars := c2, charsCapacity := newCapacity \<rparr>)
            });
     idx \<leftarrow> add_diff (indices r1) new1 (indicesCount r1 + 1) diff;
     Some (r1\<lparr> indices := idx \<rparr>)
   }"

definition Replace :: "nat \<Rightarrow> nat \<Rightarrow> wchar list \<Rightarrow> ROW \<Rightarrow> ROW option" where
  "Replace x width text r = do {
     let new0 = min x (indicesCount r);
     let new1 = min (sz (int new0 + int width)) (indicesCount r);
     ch0 \<leftarrow> index_at (indices r) new0;
     let old0 = scan_left (indices r) ch0 new0;
     (old1, ch1) \<leftarrow> scan_right (indices r) ch0 new1;
     let leadingSpaces = new0 - old0;
     let trailingSpaces = old1 - new1;
     let insertedChars = length text + leadingSpaces + trailingSpaces;
     let newRhs = insertedChars + ch0;
     let diff = sz (int newRhs - int ch1);
     r1 \<leftarrow> (if diff \<noteq> 0 then Replace_resize new1 ch0 ch1 newRhs diff r else Some r);
     c1 \<leftarrow> fill_n (chars r1) ch0 leadingSpaces UNICODE_SPACE;
     c2 \<leftarrow> copy_n text 0 (int (length text)) c1 (ch0 + leadingSpaces);
     c3 \<leftarrow> fill_n c2 (ch0 + leadingSpaces + length text) trailingSpaces UNICODE_SPACE;
     let col0 = old0;
     i1 \<leftarrow> store_cols (indices r1) col0 new0 (\<lambda>col. col);
     let col1 = max col0 new0;
     i2 \<leftarrow> store_cols i1 col1 new1 (\<lambda>col. col1);
     let col2 = max col1 new1;
     i3 \<leftarrow> store_cols i2 col2 old1 (\<lambda>col. col);
     Some (r1\<lparr> chars := c3, indices := i3 \<rparr>)
   }"

subsection \<open>Members declared in \<^verbatim>\<open>Row.hpp\<close>\<close>

text \<open>
  Modelled from the spec: \<^verbatim>\<open>ROW::size()\<close>, declared in \<^verbatim>\<open>Row.hpp\<close>, which is not part
  of the sources at hand. The spec compares column arguments with \<open>columnCount\<close>.
\<close>

definition size_ROW :: "ROW \<Rightarrow> nat" where
  "size_ROW r = indicesCount r"

text \<open>
  Modelled from the spec: \<^verbatim>\<open>ROW::ClearCell(column)\<close>, declared in \<^verbatim>\<open>Row.hpp\<close>. The
  spec has a column clear delegate to Splice with a single-column range and one space
  code unit.
\<close>

definition ClearCell :: "nat \<Rightarrow> ROW \<Rightarrow> ROW option" where
  "ClearCell column r = Replace column 1 [UNICODE_SPACE] r"

text \<open>
  Modelled from the spec: the setters \<^verbatim>\<open>SetWrapForced\<close> and \<^verbatim>\<open>SetDoubleBytePadded\<close>,
  declared in \<^verbatim>\<open>Row.hpp\<close>; each assigns the flag of its name.
\<close>

definition SetWrapForced :: "bool \<Rightarrow> ROW \<Rightarrow> ROW" where
  "SetWrapForced wrap r = r\<lparr> wrapForced := wrap \<rparr>"

definition SetDoubleBytePadded :: "bool \<Rightarrow> ROW \<Rightarrow> ROW" where
  "SetDoubleBytePadded padded r = r\<lparr> doubleBytePadded := padded \<rparr>"

text \<open>
  Modelled from the spec: the overload \<^verbatim>\<open>Replace(beginIndex, endIndex, attr)\<close> on the
  attribute runs, declared in \<^verbatim>\<open>Row.hpp\<close>. The run-length encoding is kept as one
  attribute per column; the call overwrites the attribute over the half-open column
  range and leaves the number of columns covered as it is.
\<close>

definition ReplaceAttr :: "nat \<Rightarrow> nat \<Rightarrow> TextAttribute \<Rightarrow> ROW \<Rightarrow> ROW" where
  "ReplaceAttr beginIndex endIndex newAttr r =
     r\<lparr> attr := map (\<lambda>(a, col). if beginIndex \<le> col \<and> col < endIndex then newAttr else a)
                    (zip (attr r) [0..<length (attr r)]) \<rparr>"

subsection \<open>The cell source\<close>

text \<open>
  Modelled from the spec: the cell view and its iterator (\<^verbatim>\<open>OutputCellIterator\<close>,
  \<^verbatim>\<open>TextAttributeBehavior\<close>, \<^verbatim>\<open>DbcsAttribute\<close>), none of which is part of the sources
  at hand. A cell carries its text, its width class, an attribute and the way the
  attribute is applied; the source names the modes \<^verbatim>\<open>Current\<close> (the spec's
  CurrentAttrOnly) and \<^verbatim>\<open>StoredOnly\<close> (the spec's StoredAttrOnly), the remaining mode
  is the spec's Normal.
\<close>

datatype TextAttributeBehavior = Normal | Current | StoredOnly

datatype DbcsAttribute = Single | Leading | Trailing

record OutputCellView =
  Chars :: "wchar list"
  DbcsAttr :: DbcsAttribute
  TextAttr :: TextAttribute
  TextAttrBehavior :: TextAttributeBehavior

definition IsLeading :: "DbcsAttribute \<Rightarrow> bool" where
  "IsLeading d = (d = Leading)"

definition IsTrailing :: "DbcsAttribute \<Rightarrow> bool" where
  "IsTrailing d = (d = Trailing)"

text \<open>
  Modelled from the spec: the conversion of a cell's \<^verbatim>\<open>DbcsAttr()\<close> to the \<^verbatim>\<open>width\<close>
  argument of \<^verbatim>\<open>Replace\<close>. The spec gives the column width of a cell as 1 for a narrow
  glyph, 2 for a wide one and 0 for a trailing placeholder.
\<close>

definition dbcs_width :: "DbcsAttribute \<Rightarrow> nat" where
  "dbcs_width d = (case d of Single \<Rightarrow> 1 | Leading \<Rightarrow> 2 | Trailing \<Rightarrow> 0)"

text \<open>
  Modelled from the spec: the iterator is a forward-only sequence of cells, exhausted
  when no cell is left. It is the list of the cells not yet consumed; \<^verbatim>\<open>operator bool\<close>
  is \<open>it_valid\<close>, \<^verbatim>\<open>operator->\<close> is \<open>it_view\<close> and has no cell to return once the
  source is exhausted, \<^verbatim>\<open>operator++\<close> is \<open>it_next\<close>.
\<close>

type_synonym OutputCellIterator = "OutputCellView list"

definition it_valid :: "OutputCellIterator \<Rightarrow> bool" where
  "it_valid it = (it \<noteq> [])"

definition it_view :: "OutputCellIterator \<Rightarrow> OutputCellView option" where
  "it_view it = (case it of [] \<Rightarrow> None | cell # _ \<Rightarrow> Some cell)"

definition it_next :: "OutputCellIterator \<Rightarrow> OutputCellIterator" where
  "it_next it = tl it"

subsection \<open>\<^verbatim>\<open>ROW::ClearColumn\<close> and \<^verbatim>\<open>ROW::WriteCells\<close>\<close>

text \<open>
  A failing call returns the failure together with the row as it stands when the
  failure is raised. \<open>E_INVALIDARG\<close> is the exception of \<^verbatim>\<open>THROW_HR_IF\<close>;
  \<open>OutOfBounds\<close> stands for an access outside of an array, \<open>ExhaustedRead\<close> for a read
  through an exhausted iterator.
\<close>

datatype error = E_INVALIDARG | OutOfBounds | ExhaustedRead

definition ClearColumn :: "nat \<Rightarrow> ROW \<Rightarrow> (error \<times> ROW) + ROW" where
  "ClearColumn column r =
     (if column \<ge> size_ROW r then Inl (E_INVALIDARG, r)
      else case ClearCell column r of None \<Rightarrow> Inl (OutOfBounds, r) | Some r' \<Rightarrow> Inr r')"

text \<open>The locals \<^verbatim>\<open>currentColor\<close>, \<^verbatim>\<open>colorUses\<close> and \<^verbatim>\<open>colorStarts\<close> of \<^verbatim>\<open>WriteCells\<close>.\<close>

type_synonym color_run = "TextAttribute \<times> nat \<times> nat"

text \<open>Lines 97 to 111: the body of \<^verbatim>\<open>if (it->TextAttrBehavior() != Current)\<close>.\<close>

definition fill_color :: "OutputCellView \<Rightarrow> nat \<Rightarrow> ROW \<times> color_run \<Rightarrow> ROW \<times> color_run" where
  "fill_color cell currentIndex s =
     (case s of (r, currentColor, colorUses, colorStarts) \<Rightarrow>
        if currentColor = TextAttr cell
        then (r, currentColor, u16 (colorUses + 1), colorStarts)
        else (ReplaceAttr colorStarts currentIndex currentColor r, TextAttr cell, 1, currentIndex))"

text \<open>Lines 117 to 152: the body of \<^verbatim>\<open>if (it->TextAttrBehavior() != StoredOnly)\<close>.\<close>

definition fill_text ::
  "nat \<Rightarrow> bool option \<Rightarrow> nat \<Rightarrow> OutputCellView \<Rightarrow> ROW \<Rightarrow> OutputCellIterator
     \<Rightarrow> (ROW \<times> OutputCellIterator) option"
where
  "fill_text finalColumnInRow wrap currentIndex cell r it = do {
     let fillingLastColumn = (currentIndex = finalColumnInRow);
     (r1, it1) \<leftarrow>
       (if currentIndex = 0 \<and> IsTrailing (DbcsAttr cell)
        then do { r' \<leftarrow> ClearCell currentIndex r; Some (r', it) }
        else if fillingLastColumn \<and> IsLeading (DbcsAttr cell)
        then do { r' \<leftarrow> ClearCell currentIndex r; Some (SetDoubleBytePadded True r', it) }
        else do { r' \<leftarrow> Replace currentIndex (dbcs_width (DbcsAttr cell)) (Chars cell) r;
                  Some (r', it_next it) });
     Some (case wrap of
             Some w \<Rightarrow> if fillingLastColumn then SetWrapForced w r1 else r1
           | None \<Rightarrow> r1,
           it1)
   }"

text \<open>
  The loop of lines 92 to 161. It returns the row, the iterator and the locals that the
  final commit reads. \<^verbatim>\<open>currentIndex\<close> goes up by one in every round, so the loop ends
  once it has passed \<^verbatim>\<open>finalColumnInRow\<close>.
\<close>

function WriteCells_loop ::
  "nat \<Rightarrow> bool option \<Rightarrow> ROW \<Rightarrow> OutputCellIterator \<Rightarrow> color_run \<Rightarrow> nat
     \<Rightarrow> (error \<times> ROW) + (ROW \<times> OutputCellIterator \<times> color_run \<times> nat)"
where
  "WriteCells_loop finalColumnInRow wrap r it run currentIndex =
     (if it_valid it \<and> currentIndex \<le> finalColumnInRow
      then
        (case it_view it of
           None \<Rightarrow> Inl (ExhaustedRead, r)
         | Some cell \<Rightarrow>
             (case (if TextAttrBehavior cell \<noteq> Current
                    then fill_color cell currentIndex (r, run) else (r, run)) of
                (r1, run1) \<Rightarrow>
                  (case (if TextAttrBehavior cell \<noteq> StoredOnly
                         then fill_text finalColumnInRow wrap currentIndex cell r1 it
                         else Some (r1, it_next it)) of
                     None \<Rightarrow> Inl (OutOfBounds, r1)
                   | Some (r2, it2) \<Rightarrow>
                       WriteCells_loop finalColumnInRow wrap r2 it2 run1 (currentIndex + 1))))
      else Inr (r, it, run, currentIndex))"
  by pat_completeness auto
termination
  by (relation "measure (\<lambda>(final, wrap, r, it, run, currentIndex). Suc final - currentIndex)")
     auto

declare WriteCells_loop.simps [simp del]

definition WriteCells ::
  "OutputCellIterator \<Rightarrow> nat \<Rightarrow> bool option \<Rightarrow> nat option \<Rightarrow> ROW
     \<Rightarrow> (error \<times> ROW) + (ROW \<times> OutputCellIterator)"
where
  "WriteCells it index wrap limitRight r =
     (if index \<ge> size_ROW r then Inl (E_INVALIDARG, r)
      else if (case limitRight of Some l \<Rightarrow> l | None \<Rightarrow> 0) \<ge> size_ROW r
      then Inl (E_INVALIDARG, r)
      else
        (let finalColumnInRow = (case limitRight of Some l \<Rightarrow> l | None \<Rightarrow> size_ROW r - 1) in
         case it_view it of
           None \<Rightarrow> Inl (ExhaustedRead, r)
         | Some first \<Rightarrow>
             (case WriteCells_loop finalColumnInRow wrap r it (TextAttr first, 0, index) index of
                Inl e \<Rightarrow> Inl e
              | Inr (r', it', (currentColor, colorUses, colorStarts), currentIndex) \<Rightarrow>
                  Inr (if colorUses \<noteq> 0
                       then ReplaceAttr colorStarts currentIndex currentColor r' else r',
                       it'))))"

subsection \<open>Reachable rows\<close>

text \<open>
  The rows that construction followed by any sequence of \<^verbatim>\<open>Reset\<close>, \<^verbatim>\<open>ClearColumn\<close>,
  \<^verbatim>\<open>Replace\<close> and \<^verbatim>\<open>WriteCells\<close> calls that return can produce. The row width is an
  \<^verbatim>\<open>unsigned short\<close>.
\<close>

inductive reachable :: "ROW \<Rightarrow> bool" where
  reachable_new: "rowWidth < 65536 \<Longrightarrow> reachable (ROW_new rowWidth fillAttribute)"
| reachable_Reset: "reachable r \<Longrightarrow> Reset Attr r = Some r' \<Longrightarrow> reachable r'"
| reachable_ClearColumn: "reachable r \<Longrightarrow> ClearColumn column r = Inr r' \<Longrightarrow> reachable r'"
| reachable_Replace: "reachable r \<Longrightarrow> Replace x width text r = Some r' \<Longrightarrow> reachable r'"
| reachable_WriteCells:
    "reachable r \<Longrightarrow> WriteCells it index wrap limitRight r = Inr (r', it') \<Longrightarrow> reachable r'"

text \<open>
  The index invariant of the data model: the entries \<open>index[0 .. columnCount]\<close> are
  non-decreasing.
\<close>

definition index_nondecreasing :: "ROW \<Rightarrow> bool" where
  "index_nondecreasing r = sorted (take (indicesCount r + 1) (indices r))"

section \<open>Evaluation\<close>

text \<open>
  Concrete calls are evaluated by rewriting with the definitions. The weak congruence
  rules keep the simplifier from entering the continuation of a bind or the body of a
  let before the bound value is known.
\<close>

lemma option_bind_weak_cong: "x = y \<Longrightarrow> Option.bind x f = Option.bind y f"
  by simp

lemma replicate_numeral_Cons: "replicate (numeral k) x = x # replicate (pred_numeral k) x"
  by (simp add: numeral_eq_Suc)

lemmas upt_unfold = upt_rec [of "Suc i" "numeral k" for i k] upt_rec [of 0 "numeral k" for k]

lemmas row_eval =
  Replace_def Replace_resize_def index_at_def copy_n_def fill_n_def store_cols_def add_diff_def
  scan_left.simps scan_right.simps
  sz_def u16_def UNICODE_SPACE_def ROW_new_def Let_def replicate_numeral_Cons upt_unfold

lemmas cells_eval =
  WriteCells_def WriteCells_loop.simps size_ROW_def ClearCell_def SetWrapForced_def
  SetDoubleBytePadded_def ReplaceAttr_def IsLeading_def IsTrailing_def dbcs_width_def
  it_valid_def it_view_def it_next_def fill_color_def fill_text_def ClearColumn_def

section \<open>What \<^verbatim>\<open>Replace\<close> leaves alone\<close>

lemma Replace_resize_keeps:
  assumes "Replace_resize new1 ch0 ch1 newRhs diff r = Some r1"
  shows "attr r1 = attr r" and "lineRendition r1 = lineRendition r"
    and "wrapForced r1 = wrapForced r" and "doubleBytePadded r1 = doubleBytePadded r"
    and "indicesCount r1 = indicesCount r"
  using assms
  by (auto simp: Replace_resize_def Let_def bind_eq_Some_conv split: if_splits)

lemma Replace_SomeE:
  assumes "Replace x width text r = Some r'"
  obtains new0 new1 ch0 old0 old1 ch1 leadingSpaces trailingSpaces newRhs diff r1 c1 c2 c3 i1 i2 i3
  where
    "new0 = min x (indicesCount r)"
    "new1 = min (sz (int new0 + int width)) (indicesCount r)"
    "index_at (indices r) new0 = Some ch0"
    "old0 = scan_left (indices r) ch0 new0"
    "scan_right (indices r) ch0 new1 = Some (old1, ch1)"
    "leadingSpaces = new0 - old0"
    "trailingSpaces = old1 - new1"
    "newRhs = length text + leadingSpaces + trailingSpaces + ch0"
    "diff = sz (int newRhs - int ch1)"
    "(if diff \<noteq> 0 then Replace_resize new1 ch0 ch1 newRhs diff r else Some r) = Some r1"
    "fill_n (chars r1) ch0 leadingSpaces UNICODE_SPACE = Some c1"
    "copy_n text 0 (int (length text)) c1 (ch0 + leadingSpaces) = Some c2"
    "fill_n c2 (ch0 + leadingSpaces + length text) trailingSpaces UNICODE_SPACE = Some c3"
    "store_cols (indices r1) old0 new0 (\<lambda>col. col) = Some i1"
    "store_cols i1 (max old0 new0) new1 (\<lambda>col. max old0 new0) = Some i2"
    "store_cols i2 (max (max old0 new0) new1) old1 (\<lambda>col. col) = Some i3"
    "r' = r1\<lparr> chars := c3, indices := i3 \<rparr>"
  using assms unfolding Replace_def Let_def
  by (auto simp only: bind_eq_Some_conv split_paired_all prod.case option.inject)

lemma Replace_keeps:
  assumes "Replace x width text r = Some r'"
  shows "attr r' = attr r" and "lineRendition r' = lineRendition r"
    and "wrapForced r' = wrapForced r" and "doubleBytePadded r' = doubleBytePadded r"
    and "indicesCount r' = indicesCount r"
proof -
  from assms obtain new1 ch0 ch1 newRhs diff r1 c3 i3 where
    r1: "(if diff \<noteq> 0 then Replace_resize new1 ch0 ch1 newRhs diff r else Some r) = Some r1"
    and r': "r' = r1\<lparr> chars := c3, indices := i3 \<rparr>"
    by (rule Replace_SomeE)
  have "attr r1 = attr r \<and> lineRendition r1 = lineRendition r \<and> wrapForced r1 = wrapForced r
      \<and> doubleBytePadded r1 = doubleBytePadded r \<and> indicesCount r1 = indicesCount r"
  proof (cases "diff = 0")
    case True
    with r1 show ?thesis by simp
  next
    case False
    with r1 have "Replace_resize new1 ch0 ch1 newRhs diff r = Some r1" by simp
    then show ?thesis by (simp add: Replace_resize_keeps)
  qed
  with r' show "attr r' = attr r" and "lineRendition r' = lineRendition r"
    and "wrapForced r' = wrapForced r" and "doubleBytePadded r' = doubleBytePadded r"
    and "indicesCount r' = indicesCount r"
    by simp_all
qed

text \<open>
  C10: a \<^verbatim>\<open>Replace\<close> call that returns leaves the wrapForced flag, the doubleBytePadded
  flag, the line rendition and the attribute runs as they were, whatever its arguments;
  it writes the text buffer, its capacity and the column index only.
\<close>

theorem Replace_frame:
  "Replace x width text r = Some r' \<Longrightarrow>
     wrapForced r' = wrapForced r \<and> doubleBytePadded r' = doubleBytePadded r \<and>
     lineRendition r' = lineRendition r \<and> attr r' = attr r"
  by (simp add: Replace_keeps)

lemma Replace_ab_row5:
  "Replace 0 1 [97, 98] (ROW_new 5 7) =
     Some \<lparr> chars = [97, 98, 32, 32, 32, 32, 0], charsCapacity = 7,
            indices = [0, 2, 3, 4, 5, 6], indicesCount = 5, attr = [7, 7, 7, 7, 7],
            lineRendition = SingleWidth, wrapForced = False, doubleBytePadded = False \<rparr>"
  by (simp add: row_eval cong: option_bind_weak_cong let_weak_cong)

theorem Replace_frame_witness:
  "Replace 0 1 [97, 98] (ROW_new 5 7) =
     Some \<lparr> chars = [97, 98, 32, 32, 32, 32, 0], charsCapacity = 7,
            indices = [0, 2, 3, 4, 5, 6], indicesCount = 5, attr = [7, 7, 7, 7, 7],
            lineRendition = SingleWidth, wrapForced = False, doubleBytePadded = False \<rparr> \<and>
   wrapForced (ROW_new 5 7) = False \<and> doubleBytePadded (ROW_new 5 7) = False \<and>
   lineRendition (ROW_new 5 7) = SingleWidth \<and> attr (ROW_new 5 7) = [7, 7, 7, 7, 7]"
  using Replace_frame [OF Replace_ab_row5] Replace_ab_row5 by simp

section \<open>Argument checks\<close>

text \<open>
  C7: \<^verbatim>\<open>ClearColumn\<close> fails with \<open>E_INVALIDARG\<close> exactly when the column is not below
  the column count; \<^verbatim>\<open>WriteCells\<close> fails with \<open>E_INVALIDARG\<close> when the start column or
  a supplied right limit is not below the column count; and the row that such a failing
  call leaves behind is the row it was given.
\<close>

theorem invalid_argument_before_mutation:
  "((\<exists>s. ClearColumn column r = Inl (E_INVALIDARG, s)) \<longleftrightarrow> column \<ge> indicesCount r) \<and>
   (column \<ge> indicesCount r \<longrightarrow> ClearColumn column r = Inl (E_INVALIDARG, r)) \<and>
   (startColumn \<ge> indicesCount r \<or> (\<exists>l. rightLimit = Some l \<and> l \<ge> indicesCount r)
      \<longrightarrow> WriteCells it startColumn wrap rightLimit r = Inl (E_INVALIDARG, r))"
  by (auto simp: ClearColumn_def WriteCells_def size_ROW_def split: option.splits)

theorem invalid_argument_before_mutation_witness:
  "ClearColumn 4 (ROW_new 4 7) = Inl (E_INVALIDARG, ROW_new 4 7) \<and>
   WriteCells [] 0 None (Some 4) (ROW_new 4 7) = Inl (E_INVALIDARG, ROW_new 4 7)"
  using invalid_argument_before_mutation
          [of 4 "ROW_new 4 7" 0 "Some 4" "[]" None]
  by (simp add: ROW_new_def)

section \<open>Block moves and stores\<close>








lemma store_cols_nth_below:
  "store_cols idx col bound f = Some out \<Longrightarrow> j < col \<Longrightarrow> out ! j = idx ! j"
  by (auto simp: store_cols_def nth_append split: if_splits)





section \<open>The resize step of \<^verbatim>\<open>Replace\<close>\<close>









lemma Replace_ab_row5_locals:
  shows new0: "(0::nat) = min 0 (indicesCount (ROW_new 5 7))"
    and new1: "(1::nat) = min (sz (int 0 + int 1)) (indicesCount (ROW_new 5 7))"
    and ch0: "index_at (indices (ROW_new 5 7)) 0 = Some 0"
    and old0: "(0::nat) = scan_left (indices (ROW_new 5 7)) 0 0"
    and scan: "scan_right (indices (ROW_new 5 7)) 0 1 = Some (1, 1)"
    and newRhs: "(2::nat) = length [97, 98 :: nat] + (0 - 0) + (1 - 1) + 0"
    and diff: "(1::nat) = sz (int 2 - int 1)"
    and nz: "(1::nat) \<noteq> 0"
    and len: "index_at (indices (ROW_new 5 7)) (indicesCount (ROW_new 5 7)) = Some 5"
    and newLength: "(6::nat) = sz (int 5 + int 1)"
  by (simp_all add: ROW_new_def sz_def index_at_def scan_left.simps scan_right.simps)




text \<open>
  The same narrowing below zero, on a row reached by two short calls: with the index
  \<open>0, 4, 2, 6, 7\<close>, the call \<open>Replace 0 1 [88]\<close> has a length delta of \<open>-3\<close> and takes
  the entry of column 2 from \<open>2\<close> to \<open>65535\<close>.
\<close>

lemma Replace_index_shift_wraps_below_zero:
  "Replace 0 1 [88, 88, 88, 88] (ROW_new 4 7) =
     Some \<lparr> chars = [88, 88, 88, 88, 32, 32, 32], charsCapacity = 7,
            indices = [0, 4, 5, 6, 7], indicesCount = 4, attr = [7, 7, 7, 7],
            lineRendition = SingleWidth, wrapForced = False, doubleBytePadded = False \<rparr> \<and>
   Replace 2 1 [90]
       \<lparr> chars = [88, 88, 88, 88, 32, 32, 32], charsCapacity = 7,
         indices = [0, 4, 5, 6, 7], indicesCount = 4, attr = [7, 7, 7, 7],
         lineRendition = SingleWidth, wrapForced = False, doubleBytePadded = False \<rparr> =
     Some \<lparr> chars = [88, 88, 88, 88, 32, 90, 32], charsCapacity = 7,
            indices = [0, 4, 2, 6, 7], indicesCount = 4, attr = [7, 7, 7, 7],
            lineRendition = SingleWidth, wrapForced = False, doubleBytePadded = False \<rparr> \<and>
   Replace 0 1 [88]
       \<lparr> chars = [88, 88, 88, 88, 32, 90, 32], charsCapacity = 7,
         indices = [0, 4, 2, 6, 7], indicesCount = 4, attr = [7, 7, 7, 7],
         lineRendition = SingleWidth, wrapForced = False, doubleBytePadded = False \<rparr> =
     Some \<lparr> chars = [88, 32, 90, 32, 32, 90, 32], charsCapacity = 7,
            indices = [0, 1, 65535, 3, 4], indicesCount = 4, attr = [7, 7, 7, 7],
            lineRendition = SingleWidth, wrapForced = False, doubleBytePadded = False \<rparr>"
  by (simp add: row_eval cong: option_bind_weak_cong let_weak_cong)

section \<open>The index after \<^verbatim>\<open>Replace\<close>\<close>

text \<open>
  C1: the spec has the columns of the target range \<open>[new0, new1)\<close> all hold the offset
  \<open>ch0 + leadingSpaces\<close> after the call. On a row of five columns whose first column
  holds the two code units \<open>97, 98\<close>, the call \<open>Replace 2 2 [88]\<close> finds \<open>ch0 = 3\<close> and
  \<open>old0 = new0 = 2\<close>, writes the code unit at offset \<open>3\<close>, and stores the column
  number \<open>2\<close> in the entries of columns 2 and 3.
\<close>

theorem Replace_index_rewrite_stores_columns:
  "Replace 0 1 [97, 98] (ROW_new 5 7) =
     Some \<lparr> chars = [97, 98, 32, 32, 32, 32, 0], charsCapacity = 7,
            indices = [0, 2, 3, 4, 5, 6], indicesCount = 5, attr = [7, 7, 7, 7, 7],
            lineRendition = SingleWidth, wrapForced = False, doubleBytePadded = False \<rparr> \<and>
   index_at [0, 2, 3, 4, 5, 6] 2 = Some 3 \<and>
   scan_left [0, 2, 3, 4, 5, 6] 3 2 = 2 \<and>
   Replace 2 2 [88]
       \<lparr> chars = [97, 98, 32, 32, 32, 32, 0], charsCapacity = 7,
         indices = [0, 2, 3, 4, 5, 6], indicesCount = 5, attr = [7, 7, 7, 7, 7],
         lineRendition = SingleWidth, wrapForced = False, doubleBytePadded = False \<rparr> =
     Some \<lparr> chars = [97, 98, 32, 88, 32, 32, 0], charsCapacity = 7,
            indices = [0, 2, 2, 2, 4, 5], indicesCount = 5, attr = [7, 7, 7, 7, 7],
            lineRendition = SingleWidth, wrapForced = False, doubleBytePadded = False \<rparr>"
  by (simp add: row_eval cong: option_bind_weak_cong let_weak_cong)

lemma Replace_Y_row5:
  "Replace 2 2 [89] (ROW_new 5 7) =
     Some \<lparr> chars = [32, 32, 89, 32, 32], charsCapacity = 5,
            indices = [0, 1, 2, 2, 3, 4], indicesCount = 5, attr = [7, 7, 7, 7, 7],
            lineRendition = SingleWidth, wrapForced = False, doubleBytePadded = False \<rparr>"
  by (simp add: row_eval cong: option_bind_weak_cong let_weak_cong)

lemma Replace_X_row5:
  "Replace 0 2 [88]
       \<lparr> chars = [32, 32, 89, 32, 32], charsCapacity = 5,
         indices = [0, 1, 2, 2, 3, 4], indicesCount = 5, attr = [7, 7, 7, 7, 7],
         lineRendition = SingleWidth, wrapForced = False, doubleBytePadded = False \<rparr> =
     Some \<lparr> chars = [88, 89, 32, 32, 32], charsCapacity = 5,
            indices = [0, 0, 1, 1, 2, 3], indicesCount = 5, attr = [7, 7, 7, 7, 7],
            lineRendition = SingleWidth, wrapForced = False, doubleBytePadded = False \<rparr>"
  by (simp add: row_eval cong: option_bind_weak_cong let_weak_cong)

lemma Replace_w_row5:
  "Replace 4 1 [119]
       \<lparr> chars = [88, 89, 32, 32, 32], charsCapacity = 5,
         indices = [0, 0, 1, 1, 2, 3], indicesCount = 5, attr = [7, 7, 7, 7, 7],
         lineRendition = SingleWidth, wrapForced = False, doubleBytePadded = False \<rparr> =
     Some \<lparr> chars = [88, 89, 119, 32, 32], charsCapacity = 5,
            indices = [0, 0, 1, 1, 4, 3], indicesCount = 5, attr = [7, 7, 7, 7, 7],
            lineRendition = SingleWidth, wrapForced = False, doubleBytePadded = False \<rparr>"
  by (simp add: row_eval cong: option_bind_weak_cong let_weak_cong)


text \<open>
  C2: the spec has the index non-decreasing in every row reachable from construction.
  Writing a two-column glyph at column 2, another at column 0 and a one-column glyph at
  column 4 of a fresh row of five columns yields the index \<open>0, 0, 1, 1, 4, 3\<close>.
\<close>

theorem reachable_index_decreases:
  "reachable \<lparr> chars = [88, 89, 119, 32, 32], charsCapacity = 5,
               indices = [0, 0, 1, 1, 4, 3], indicesCount = 5, attr = [7, 7, 7, 7, 7],
               lineRendition = SingleWidth, wrapForced = False, doubleBytePadded = False \<rparr> \<and>
   \<not> index_nondecreasing
       \<lparr> chars = [88, 89, 119, 32, 32], charsCapacity = 5,
         indices = [0, 0, 1, 1, 4, 3], indicesCount = 5, attr = [7, 7, 7, 7, 7],
         lineRendition = SingleWidth, wrapForced = False, doubleBytePadded = False \<rparr>"
proof
  have "reachable (ROW_new 5 7)"
    by (rule reachable_new) simp
  from reachable_Replace [OF reachable_Replace [OF reachable_Replace [OF this
        Replace_Y_row5] Replace_X_row5] Replace_w_row5]
  show "reachable \<lparr> chars = [88, 89, 119, 32, 32], charsCapacity = 5,
               indices = [0, 0, 1, 1, 4, 3], indicesCount = 5, attr = [7, 7, 7, 7, 7],
               lineRendition = SingleWidth, wrapForced = False, doubleBytePadded = False \<rparr>" .
next
  show "\<not> index_nondecreasing
       \<lparr> chars = [88, 89, 119, 32, 32], charsCapacity = 5,
         indices = [0, 0, 1, 1, 4, 3], indicesCount = 5, attr = [7, 7, 7, 7, 7],
         lineRendition = SingleWidth, wrapForced = False, doubleBytePadded = False \<rparr>"
    by (simp add: index_nondecreasing_def)
qed

text \<open>
  C9: the spec has a repeated \<^verbatim>\<open>Replace\<close> with the same arguments change nothing after
  the first. On a row of four columns with a two-column glyph at column 0, the call
  \<open>Replace 2 1 [97]\<close> yields the index \<open>0, 0, 2, 2, 3\<close> and the text \<open>88, 97, 32\<close>;
  the same call on that row yields the index \<open>0, 0, 2, 3, 4\<close> and the text
  \<open>88, 97, 97, 32\<close>.
\<close>

theorem Replace_twice_differs:
  "Replace 0 2 [88] (ROW_new 4 7) =
     Some \<lparr> chars = [88, 32, 32, 32], charsCapacity = 4,
            indices = [0, 0, 1, 2, 3], indicesCount = 4, attr = [7, 7, 7, 7],
            lineRendition = SingleWidth, wrapForced = False, doubleBytePadded = False \<rparr> \<and>
   Replace 2 1 [97]
       \<lparr> chars = [88, 32, 32, 32], charsCapacity = 4,
         indices = [0, 0, 1, 2, 3], indicesCount = 4, attr = [7, 7, 7, 7],
         lineRendition = SingleWidth, wrapForced = False, doubleBytePadded = False \<rparr> =
     Some \<lparr> chars = [88, 97, 32, 32], charsCapacity = 4,
            indices = [0, 0, 2, 2, 3], indicesCount = 4, attr = [7, 7, 7, 7],
            lineRendition = SingleWidth, wrapForced = False, doubleBytePadded = False \<rparr> \<and>
   Replace 2 1 [97]
       \<lparr> chars = [88, 97, 32, 32], charsCapacity = 4,
         indices = [0, 0, 2, 2, 3], indicesCount = 4, attr = [7, 7, 7, 7],
         lineRendition = SingleWidth, wrapForced = False, doubleBytePadded = False \<rparr> =
     Some \<lparr> chars = [88, 97, 97, 32], charsCapacity = 4,
            indices = [0, 0, 2, 3, 4], indicesCount = 4, attr = [7, 7, 7, 7],
            lineRendition = SingleWidth, wrapForced = False, doubleBytePadded = False \<rparr>"
  by (simp add: row_eval cong: option_bind_weak_cong let_weak_cong)

section \<open>The rounds of \<^verbatim>\<open>WriteCells\<close>\<close>

lemma fill_color_keeps:
  assumes "fill_color cell currentIndex (r, run) = (r1, run1)"
  shows "chars r1 = chars r" and "charsCapacity r1 = charsCapacity r"
    and "indices r1 = indices r" and "indicesCount r1 = indicesCount r"
    and "wrapForced r1 = wrapForced r" and "doubleBytePadded r1 = doubleBytePadded r"
    and "lineRendition r1 = lineRendition r"
  using assms
  by (auto simp: fill_color_def ReplaceAttr_def split: prod.splits if_splits)

lemma fill_text_keeps_attr:
  assumes "fill_text finalColumnInRow wrap currentIndex cell r it = Some (r2, it2)"
  shows "attr r2 = attr r"
proof -
  let ?place =
    "if currentIndex = 0 \<and> IsTrailing (DbcsAttr cell)
     then ClearCell currentIndex r \<bind> (\<lambda>r'. Some (r', it))
     else if currentIndex = finalColumnInRow \<and> IsLeading (DbcsAttr cell)
     then ClearCell currentIndex r \<bind> (\<lambda>r'. Some (SetDoubleBytePadded True r', it))
     else Replace currentIndex (dbcs_width (DbcsAttr cell)) (Chars cell) r
            \<bind> (\<lambda>r'. Some (r', it_next it))"
  from assms obtain r1 it1 where
    place: "?place = Some (r1, it1)"
    and r2: "r2 = (case wrap of
                     Some w \<Rightarrow> if currentIndex = finalColumnInRow then SetWrapForced w r1 else r1
                   | None \<Rightarrow> r1)"
    unfolding fill_text_def Let_def
    by (auto simp only: bind_eq_Some_conv split_paired_all prod.case option.inject prod.inject)
  from r2 have a2: "attr r2 = attr r1"
    by (simp add: SetWrapForced_def split: option.splits)
  have "attr r1 = attr r"
  proof (cases "currentIndex = 0 \<and> IsTrailing (DbcsAttr cell)")
    case True
    with place obtain r' where "Replace currentIndex 1 [UNICODE_SPACE] r = Some r'" "r1 = r'"
      by (auto simp: bind_eq_Some_conv ClearCell_def)
    then show ?thesis by (simp add: Replace_keeps(1))
  next
    case False
    note not_first = this
    show ?thesis
    proof (cases "currentIndex = finalColumnInRow \<and> IsLeading (DbcsAttr cell)")
      case True
      with place not_first obtain r' where
        "Replace currentIndex 1 [UNICODE_SPACE] r = Some r'" "r1 = SetDoubleBytePadded True r'"
        by (auto simp: bind_eq_Some_conv ClearCell_def)
      then show ?thesis by (simp add: Replace_keeps(1) SetDoubleBytePadded_def)
    next
      case False
      with place not_first obtain r' where
        "Replace currentIndex (dbcs_width (DbcsAttr cell)) (Chars cell) r = Some r'" "r1 = r'"
        by (auto simp: bind_eq_Some_conv)
      then show ?thesis by (simp add: Replace_keeps(1))
    qed
  qed
  with a2 show ?thesis by simp
qed

text \<open>
  C3 (as amended): in a round of the loop that consumes a cell, the colour step
  (\<open>fill_color\<close>) runs exactly when the cell's mode is not \<^verbatim>\<open>Current\<close>, and the text
  step (\<open>fill_text\<close>) runs exactly when the mode is not \<^verbatim>\<open>StoredOnly\<close>. A
  \<^verbatim>\<open>StoredOnly\<close> cell moves the iterator on by one cell and goes through the colour
  step, which leaves text, index, capacity and flags alone; a \<^verbatim>\<open>Current\<close> cell goes
  through the text step only, which leaves the attribute runs and the pending run
  alone.
\<close>

theorem WriteCells_loop_round:
  assumes "currentIndex \<le> finalColumnInRow"
  shows
    "WriteCells_loop finalColumnInRow wrap r (cell # rest) run currentIndex =
       (case TextAttrBehavior cell of
          Current \<Rightarrow>
            (case fill_text finalColumnInRow wrap currentIndex cell r (cell # rest) of
               None \<Rightarrow> Inl (OutOfBounds, r)
             | Some (r2, it2) \<Rightarrow>
                 WriteCells_loop finalColumnInRow wrap r2 it2 run (currentIndex + 1))
        | StoredOnly \<Rightarrow>
            (case fill_color cell currentIndex (r, run) of
               (r1, run1) \<Rightarrow>
                 WriteCells_loop finalColumnInRow wrap r1 rest run1 (currentIndex + 1))
        | Normal \<Rightarrow>
            (case fill_color cell currentIndex (r, run) of
               (r1, run1) \<Rightarrow>
                 (case fill_text finalColumnInRow wrap currentIndex cell r1 (cell # rest) of
                    None \<Rightarrow> Inl (OutOfBounds, r1)
                  | Some (r2, it2) \<Rightarrow>
                      WriteCells_loop finalColumnInRow wrap r2 it2 run1 (currentIndex + 1)))) \<and>
     (\<forall>r1 run1. fill_color cell currentIndex (r, run) = (r1, run1) \<longrightarrow>
        chars r1 = chars r \<and> indices r1 = indices r \<and> charsCapacity r1 = charsCapacity r \<and>
        wrapForced r1 = wrapForced r \<and> doubleBytePadded r1 = doubleBytePadded r) \<and>
     (\<forall>r2 it2. fill_text finalColumnInRow wrap currentIndex cell r (cell # rest) = Some (r2, it2)
        \<longrightarrow> attr r2 = attr r)"
proof (intro conjI allI impI)
  show "WriteCells_loop finalColumnInRow wrap r (cell # rest) run currentIndex =
       (case TextAttrBehavior cell of
          Current \<Rightarrow>
            (case fill_text finalColumnInRow wrap currentIndex cell r (cell # rest) of
               None \<Rightarrow> Inl (OutOfBounds, r)
             | Some (r2, it2) \<Rightarrow>
                 WriteCells_loop finalColumnInRow wrap r2 it2 run (currentIndex + 1))
        | StoredOnly \<Rightarrow>
            (case fill_color cell currentIndex (r, run) of
               (r1, run1) \<Rightarrow>
                 WriteCells_loop finalColumnInRow wrap r1 rest run1 (currentIndex + 1))
        | Normal \<Rightarrow>
            (case fill_color cell currentIndex (r, run) of
               (r1, run1) \<Rightarrow>
                 (case fill_text finalColumnInRow wrap currentIndex cell r1 (cell # rest) of
                    None \<Rightarrow> Inl (OutOfBounds, r1)
                  | Some (r2, it2) \<Rightarrow>
                      WriteCells_loop finalColumnInRow wrap r2 it2 run1 (currentIndex + 1))))"
    using assms
    by (cases "TextAttrBehavior cell"; subst WriteCells_loop.simps)
       (simp_all add: it_valid_def it_view_def it_next_def split: prod.splits)
qed (simp_all add: fill_color_keeps fill_text_keeps_attr)

theorem WriteCells_loop_round_witness:
  "(0::nat) \<le> 2 \<and>
   WriteCells_loop 2 None (ROW_new 3 7)
     [\<lparr> Chars = [97], DbcsAttr = Single, TextAttr = 9, TextAttrBehavior = StoredOnly \<rparr>]
     (9, 0, 0) 0 =
   WriteCells_loop 2 None (ROW_new 3 7) [] (9, 1, 0) 1"
  using WriteCells_loop_round
          [of 0 2 None "ROW_new 3 7"
              "\<lparr> Chars = [97], DbcsAttr = Single, TextAttr = 9, TextAttrBehavior = StoredOnly \<rparr>"
              "[]" "(9, 0, 0)"]
  by (simp add: fill_color_def u16_def)

text \<open>
  C3 (as stated) fails: a single \<^verbatim>\<open>StoredOnly\<close> cell with attribute \<open>9\<close>, written at
  column 0 of a fresh row of three columns with attribute \<open>7\<close>, changes the attribute
  of column 0.
\<close>

theorem StoredOnly_cell_writes_attribute:
  "WriteCells
     [\<lparr> Chars = [97], DbcsAttr = Single, TextAttr = 9, TextAttrBehavior = StoredOnly \<rparr>]
     0 None None (ROW_new 3 7) =
     Inr (\<lparr> chars = [32, 32, 32], charsCapacity = 3, indices = [0, 1, 2, 3],
            indicesCount = 3, attr = [9, 7, 7], lineRendition = SingleWidth,
            wrapForced = False, doubleBytePadded = False \<rparr>, []) \<and>
   attr (ROW_new 3 7) = [7, 7, 7]"
  by (simp add: row_eval cells_eval cong: option_bind_weak_cong let_weak_cong)

text \<open>
  C5: the spec has the attribute of a column that consumed a \<^verbatim>\<open>Current\<close> cell stay as
  it was. A cell of mode \<^verbatim>\<open>Normal\<close> followed by a cell of mode \<^verbatim>\<open>Current\<close>, both
  with attribute \<open>9\<close>, written from column 0 of a fresh row with attribute \<open>7\<close>:
  the final commit covers columns 0 and 1, and column 1 ends with attribute \<open>9\<close>.
\<close>

theorem WriteCells_overwrites_kept_attribute:
  "WriteCells
     [\<lparr> Chars = [97], DbcsAttr = Single, TextAttr = 9, TextAttrBehavior = Normal \<rparr>,
      \<lparr> Chars = [98], DbcsAttr = Single, TextAttr = 9, TextAttrBehavior = Current \<rparr>]
     0 None None (ROW_new 3 7) =
     Inr (\<lparr> chars = [97, 98, 32], charsCapacity = 3, indices = [0, 1, 2, 3],
            indicesCount = 3, attr = [9, 9, 7], lineRendition = SingleWidth,
            wrapForced = False, doubleBytePadded = False \<rparr>, []) \<and>
   attr (ROW_new 3 7) = [7, 7, 7]"
  by (simp add: row_eval cells_eval cong: option_bind_weak_cong let_weak_cong)

text \<open>
  C6 (as amended): when the current column is the last writable one, the current cell
  is the leading half of a wide glyph and its mode is not \<^verbatim>\<open>StoredOnly\<close>, and the
  \<^verbatim>\<open>ClearCell\<close> of that column returns, then the round clears the column with
  \<^verbatim>\<open>ClearCell\<close>, sets doubleBytePadded, sets wrapForced when a wrap value was given, and
  the loop ends there: the iterator still stands at that cell and the column counter
  is one past the limit.
\<close>

theorem WriteCells_loop_lead_at_last_column:
  assumes lead: "IsLeading (DbcsAttr cell)"
    and mode: "TextAttrBehavior cell \<noteq> StoredOnly"
    and color: "(if TextAttrBehavior cell \<noteq> Current
                 then fill_color cell finalColumnInRow (r, run) else (r, run)) = (r1, run1)"
    and clear: "ClearCell finalColumnInRow r1 = Some r2"
  shows "\<exists>r3. WriteCells_loop finalColumnInRow wrap r (cell # rest) run finalColumnInRow =
                Inr (r3, cell # rest, run1, finalColumnInRow + 1) \<and>
              r3 = (case wrap of
                      Some w \<Rightarrow> SetWrapForced w (SetDoubleBytePadded True r2)
                    | None \<Rightarrow> SetDoubleBytePadded True r2) \<and>
              doubleBytePadded r3 \<and> chars r3 = chars r2 \<and> indices r3 = indices r2"
proof -
  let ?r3 = "case wrap of
               Some w \<Rightarrow> SetWrapForced w (SetDoubleBytePadded True r2)
             | None \<Rightarrow> SetDoubleBytePadded True r2"
  from lead have not_trailing: "\<not> IsTrailing (DbcsAttr cell)"
    by (simp add: IsLeading_def IsTrailing_def)
  with lead clear have placed:
    "fill_text finalColumnInRow wrap finalColumnInRow cell r1 (cell # rest) = Some (?r3, cell # rest)"
    by (simp add: fill_text_def split: option.splits)
  have stop: "WriteCells_loop finalColumnInRow wrap ?r3 (cell # rest) run1 (finalColumnInRow + 1)
                = Inr (?r3, cell # rest, run1, finalColumnInRow + 1)"
    by (subst WriteCells_loop.simps) simp
  have "WriteCells_loop finalColumnInRow wrap r (cell # rest) run finalColumnInRow =
          Inr (?r3, cell # rest, run1, finalColumnInRow + 1)"
    using mode color placed stop
    by (subst WriteCells_loop.simps) (simp add: it_valid_def it_view_def)
  moreover have "doubleBytePadded ?r3" "chars ?r3 = chars r2" "indices ?r3 = indices r2"
    by (simp_all add: SetWrapForced_def SetDoubleBytePadded_def split: option.splits)
  ultimately show ?thesis by blast
qed

lemma ClearCell_last_of_two:
  "ClearCell 1 \<lparr> chars = [32, 97], charsCapacity = 2, indices = [0, 1, 2], indicesCount = 2,
                 attr = [7, 7], lineRendition = SingleWidth, wrapForced = False,
                 doubleBytePadded = False \<rparr> =
     Some \<lparr> chars = [32, 32], charsCapacity = 2, indices = [0, 1, 2], indicesCount = 2,
            attr = [7, 7], lineRendition = SingleWidth, wrapForced = False,
            doubleBytePadded = False \<rparr>"
  by (simp add: ClearCell_def row_eval cong: option_bind_weak_cong let_weak_cong)

theorem WriteCells_loop_lead_at_last_column_witness:
  "WriteCells_loop 1 (Some True)
     \<lparr> chars = [32, 97], charsCapacity = 2, indices = [0, 1, 2], indicesCount = 2,
       attr = [7, 7], lineRendition = SingleWidth, wrapForced = False,
       doubleBytePadded = False \<rparr>
     [\<lparr> Chars = [88], DbcsAttr = Leading, TextAttr = 9, TextAttrBehavior = Normal \<rparr>]
     (9, 0, 1) 1 =
   Inr (\<lparr> chars = [32, 32], charsCapacity = 2, indices = [0, 1, 2], indicesCount = 2,
          attr = [7, 7], lineRendition = SingleWidth, wrapForced = True,
          doubleBytePadded = True \<rparr>,
        [\<lparr> Chars = [88], DbcsAttr = Leading, TextAttr = 9, TextAttrBehavior = Normal \<rparr>],
        (9, 1, 1), 2)"
proof -
  let ?cell = "\<lparr> Chars = [88], DbcsAttr = Leading, TextAttr = 9, TextAttrBehavior = Normal \<rparr>"
  let ?r = "\<lparr> chars = [32, 97], charsCapacity = 2, indices = [0, 1, 2], indicesCount = 2,
              attr = [7, 7], lineRendition = SingleWidth, wrapForced = False,
              doubleBytePadded = False \<rparr>"
  have lead: "IsLeading (DbcsAttr ?cell)"
    by (simp add: IsLeading_def)
  have mode: "TextAttrBehavior ?cell \<noteq> StoredOnly"
    by simp
  have color: "(if TextAttrBehavior ?cell \<noteq> Current
                then fill_color ?cell 1 (?r, (9, 0, 1)) else (?r, (9, 0, 1))) = (?r, (9, 1, 1))"
    by (simp add: fill_color_def u16_def)
  from WriteCells_loop_lead_at_last_column
         [OF lead mode color ClearCell_last_of_two, of "Some True" "[]"]
  show ?thesis
    by (simp add: SetWrapForced_def SetDoubleBytePadded_def)
qed

text \<open>
  C6 (as stated) fails for a cell of mode \<^verbatim>\<open>StoredOnly\<close>: at the last column of a row
  of two columns the leading half of a wide glyph is consumed, the column keeps its
  text, and doubleBytePadded stays false.
\<close>

theorem StoredOnly_lead_at_last_column:
  "WriteCells
     [\<lparr> Chars = [88], DbcsAttr = Leading, TextAttr = 9, TextAttrBehavior = StoredOnly \<rparr>]
     1 None None
     \<lparr> chars = [32, 97], charsCapacity = 2, indices = [0, 1, 2], indicesCount = 2,
       attr = [7, 7], lineRendition = SingleWidth, wrapForced = False,
       doubleBytePadded = False \<rparr> =
     Inr (\<lparr> chars = [32, 97], charsCapacity = 2, indices = [0, 1, 2], indicesCount = 2,
            attr = [7, 9], lineRendition = SingleWidth, wrapForced = False,
            doubleBytePadded = False \<rparr>, [])"
  by (simp add: row_eval cells_eval cong: option_bind_weak_cong let_weak_cong)

text \<open>
  Inside the loop every read of a cell comes after the test of the iterator: the only
  failure the loop can end with is an access outside of an array.
\<close>

lemma WriteCells_loop_failure:
  "WriteCells_loop finalColumnInRow wrap r it run currentIndex = Inl (e, s) \<Longrightarrow> e = OutOfBounds"
proof (induction finalColumnInRow wrap r it run currentIndex rule: WriteCells_loop.induct)
  case (1 finalColumnInRow wrap r it run currentIndex)
  show ?case
  proof (cases "it_valid it \<and> currentIndex \<le> finalColumnInRow")
    case False
    with "1.prems" show ?thesis
      by (simp add: WriteCells_loop.simps [of finalColumnInRow wrap r it run currentIndex])
  next
    case True
    then obtain cell rest where it: "it = cell # rest"
      by (cases it) (simp_all add: it_valid_def)
    then have view: "it_view it = Some cell"
      by (simp add: it_view_def)
    obtain r1 run1 where color:
      "(if TextAttrBehavior cell \<noteq> Current
        then fill_color cell currentIndex (r, run) else (r, run)) = (r1, run1)"
      by (cases "if TextAttrBehavior cell \<noteq> Current
                 then fill_color cell currentIndex (r, run) else (r, run)")
    show ?thesis
    proof (cases "if TextAttrBehavior cell \<noteq> StoredOnly
                  then fill_text finalColumnInRow wrap currentIndex cell r1 it
                  else Some (r1, it_next it)")
      case None
      with "1.prems" True view color show ?thesis
        by (simp add: WriteCells_loop.simps [of finalColumnInRow wrap r it run currentIndex])
    next
      case (Some p)
      obtain r2 it2 where p: "p = (r2, it2)" by (cases p)
      from "1.prems" True view color Some p
      have "WriteCells_loop finalColumnInRow wrap r2 it2 run1 (currentIndex + 1) = Inl (e, s)"
        by (simp add: WriteCells_loop.simps [of finalColumnInRow wrap r it run currentIndex])
      with "1.IH" [OF True view color [symmetric] Some [unfolded p] refl]
      show ?thesis .
    qed
  qed
qed

text \<open>
  C8: the spec has \<^verbatim>\<open>WriteCells\<close> never read a cell of an exhausted source, also when
  the source is exhausted at the call. Line 87 reads \<^verbatim>\<open>it->TextAttr()\<close> before the
  loop tests the iterator.
\<close>

theorem WriteCells_reads_exhausted_source:
  "WriteCells [] 0 None None (ROW_new 5 7) = Inl (ExhaustedRead, ROW_new 5 7)"
  by (simp add: WriteCells_def size_ROW_def it_view_def ROW_new_def)

end
